theory Spec2Isabelle
  imports Main
begin

section \<open>Common types\<close>

text \<open>
  Go's \<open>error\<close> values, as far as the controller tells them apart: the API machinery's
  not-found status error (the one \<open>errors.IsNotFound\<close> recognises), the error
  \<open>logr.FromContext\<close> returns for a context without a logger, an error made for a
  declaration that is incomplete (the specification's configuration error), and every
  other error; the last two carry their message.
\<close>

datatype error = NotFound string | LoggerNotFound | ConfigurationError string | Failure string

fun IsNotFound :: "error \<Rightarrow> bool" where
  "IsNotFound (NotFound _) = True"
| "IsNotFound _ = False"

text \<open>
  The object metadata every Kubernetes object embeds (\<open>metav1.ObjectMeta\<close>), with the
  fields this code reads: the name, the namespace, the deletion timestamp (nil or a time)
  and the annotations (nil or a map, held by reference, see below). A kind of object is a
  record that extends it, as the Go struct embeds it; \<open>client.Object\<close> is any such
  extension. \<open>Object\<close> adds the kind that \<open>ObjectInfo\<close> prints.
\<close>

record ObjectMeta =
  Name :: string
  Namespace :: string
  DeletionTimestamp :: "nat option"
  Annotations :: "nat option"

record Object = ObjectMeta +
  Kind :: string

section \<open>helpers: the delete tag (src/unnamed/part\_000)\<close>

text \<open>
  A Go map is a reference: \<open>GetAnnotations\<close> hands out the object's own map, and a
  write through that reference is seen by the object. The maps therefore live in a
  store, addressed by numbers; an object's annotation field is either nil
  (\<open>None\<close>) or the address of its map. \<open>make\<close> takes the next unused address and
  puts an empty map there.
\<close>

record store =
  maps :: "nat \<Rightarrow> (string \<rightharpoonup> string)"
  fresh :: nat

definition DeleteTagAnnotation :: string where
  "DeleteTagAnnotation = ''limitador.kuadrant.io/delete''"

definition make_map :: "store \<Rightarrow> nat \<times> store" where
  "make_map s = (fresh s, s\<lparr>maps := (maps s)(fresh s := Map.empty), fresh := Suc (fresh s)\<rparr>)"

definition map_assign :: "nat \<Rightarrow> string \<Rightarrow> string \<Rightarrow> store \<Rightarrow> store" where
  "map_assign a k v s = s\<lparr>maps := (maps s)(a := (maps s a)(k \<mapsto> v))\<rparr>"

definition GetAnnotations :: "'a ObjectMeta_scheme \<Rightarrow> nat option" where
  "GetAnnotations obj = Annotations obj"

definition SetAnnotations :: "'a ObjectMeta_scheme \<Rightarrow> nat option \<Rightarrow> 'a ObjectMeta_scheme" where
  "SetAnnotations obj a = obj\<lparr>Annotations := a\<rparr>"

definition ObjectInfo :: "Object \<Rightarrow> string" where
  "ObjectInfo obj = Kind obj @ ''/'' @ Name obj"

definition TagObjectToDelete :: "'a ObjectMeta_scheme \<Rightarrow> store \<Rightarrow> 'a ObjectMeta_scheme \<times> store" where
  "TagObjectToDelete obj s =
     (case GetAnnotations obj of
        None \<Rightarrow>
          (let (annotations, s1) = make_map s;
               obj1 = SetAnnotations obj (Some annotations)
           in (obj1, map_assign annotations DeleteTagAnnotation ''true'' s1))
      | Some annotations \<Rightarrow>
          (obj, map_assign annotations DeleteTagAnnotation ''true'' s))"

definition IsObjectTaggedToDelete :: "'a ObjectMeta_scheme \<Rightarrow> store \<Rightarrow> bool" where
  "IsObjectTaggedToDelete obj s =
     (case GetAnnotations obj of
        None \<Rightarrow> False
      | Some annotations \<Rightarrow>
          (case maps s annotations DeleteTagAnnotation of
             None \<Rightarrow> False
           | Some annotation \<Rightarrow> annotation = ''true''))"

section \<open>API types (api/v1alpha1, as far as the controller reads them)\<close>

record ObjectReference =
  ref_Name :: string
  ref_Namespace :: string

record RedisCachedOptions =
  TTL :: "int option"
  Ratio :: "int option"
  FlushPeriod :: "int option"
  MaxCached :: "int option"

record Redis =
  Redis_ConfigSecretRef :: "ObjectReference option"

record RedisCached =
  RedisCached_ConfigSecretRef :: "ObjectReference option"
  Options :: "RedisCachedOptions option"

record DiskSpec =
  Optimize :: "string option"

record Storage =
  Storage_Redis :: "Redis option"
  Storage_RedisCached :: "RedisCached option"
  Storage_Disk :: "DiskSpec option"

record PodDisruptionBudgetType =
  MaxUnavailable :: "int option"
  MinAvailable :: "int option"

record LimitadorSpec =
  Replicas :: "int option"
  Spec_Storage :: "Storage option"
  Spec_PodDisruptionBudget :: "PodDisruptionBudgetType option"

record Limitador = ObjectMeta +
  Spec :: LimitadorSpec

record PodDisruptionBudget = ObjectMeta +
  pdb_Spec :: PodDisruptionBudgetType

text \<open>\<open>types.NamespacedName\<close>: the namespace, then the name.\<close>

type_synonym NamespacedName = "string \<times> string"

section \<open>Results, loggers and contexts\<close>

text \<open>\<open>ctrl.Result\<close>; \<open>empty_Result\<close> is the literal \<open>ctrl.Result{}\<close>.\<close>

record Result =
  Requeue :: bool
  RequeueAfter :: nat

definition empty_Result :: Result where
  "empty_Result = \<lparr>Requeue = False, RequeueAfter = 0\<rparr>"

text \<open>
  A logger answers, for each verbosity level, whether it is enabled
  (\<open>logger.V(n).Enabled()\<close>); what it prints is no part of the model. A context
  carries a logger or none: \<open>logr.NewContext\<close> stores one, \<open>logr.FromContext\<close>
  returns it, or an error when there is none.
\<close>

record Logger =
  Enabled :: "nat \<Rightarrow> bool"

record Context =
  ctx_logger :: "Logger option"

definition WithValues :: "Logger \<Rightarrow> Logger" where
  "WithValues l = l"

definition NewContext :: "Context \<Rightarrow> Logger \<Rightarrow> Context" where
  "NewContext ctx l = ctx\<lparr>ctx_logger := Some l\<rparr>"

definition FromContext :: "Context \<Rightarrow> error + Logger" where
  "FromContext ctx = (case ctx_logger ctx of None \<Rightarrow> Inl LoggerNotFound | Some l \<Rightarrow> Inr l)"

section \<open>controllers: Reconcile and reconcileSpec\<close>

text \<open>
  The state \<open>'c\<close> is the cluster: everything the pass reads and writes through the
  client. A method with effects takes the state and returns its result with the new state.
  The declaration is handed from step to step by pointer; \<open>Reconcile\<close>,
  \<open>reconcileSpec\<close> and \<open>reconcilePdb\<close> only read it, so its value is passed.

  The record holds the reconciler: its logger, its client's \<open>Get\<close> for the
  declaration, \<open>json.MarshalIndent\<close> on the declaration, and the methods that
  \<open>reconcileSpec\<close> and \<open>Reconcile\<close> call in turn, each an arbitrary state
  transformer: \<open>service_step\<close> is \<open>reconcileService\<close>, \<open>pvc_step\<close> is
  \<open>reconcilePVC\<close>, \<open>deployment_step\<close> is \<open>reconcileDeployment\<close>,
  \<open>configmap_step\<close> is \<open>reconcileLimitsConfigMap\<close>, \<open>pdb_step\<close> is
  \<open>reconcilePdb\<close> (both given below, with their collaborators) and
  \<open>status_step\<close> is \<open>reconcileStatus\<close>, which takes the error of
  \<open>reconcileSpec\<close>. What the properties below say holds for every choice of them. A
  step here returns; where \<open>reconcileLimitsConfigMap\<close> below panics it is no value
  of \<open>configmap_step\<close>.
\<close>

record 'c LimitadorReconciler =
  Logger :: Logger
  Client_Get :: "Context \<Rightarrow> NamespacedName \<Rightarrow> 'c \<Rightarrow> (error + Limitador) \<times> 'c"
  MarshalIndent :: "Limitador \<Rightarrow> error + string"
  service_step :: "Context \<Rightarrow> Limitador \<Rightarrow> 'c \<Rightarrow> error option \<times> 'c"
  pvc_step :: "Context \<Rightarrow> Limitador \<Rightarrow> 'c \<Rightarrow> error option \<times> 'c"
  deployment_step :: "Context \<Rightarrow> Limitador \<Rightarrow> 'c \<Rightarrow> (Result \<times> error option) \<times> 'c"
  configmap_step :: "Context \<Rightarrow> Limitador \<Rightarrow> 'c \<Rightarrow> error option \<times> 'c"
  pdb_step :: "Context \<Rightarrow> Limitador \<Rightarrow> 'c \<Rightarrow> error option \<times> 'c"
  status_step :: "Context \<Rightarrow> Limitador \<Rightarrow> error option \<Rightarrow> 'c \<Rightarrow> (Result \<times> error option) \<times> 'c"

definition reconcileSpec ::
  "'c LimitadorReconciler \<Rightarrow> Context \<Rightarrow> Limitador \<Rightarrow> 'c \<Rightarrow> (Result \<times> error option) \<times> 'c" where
  "reconcileSpec r ctx limitadorObj w =
     (case service_step r ctx limitadorObj w of
        (Some err, w1) \<Rightarrow> ((empty_Result, Some err), w1)
      | (None, w1) \<Rightarrow>
     (case pvc_step r ctx limitadorObj w1 of
        (Some err, w2) \<Rightarrow> ((empty_Result, Some err), w2)
      | (None, w2) \<Rightarrow>
     (case deployment_step r ctx limitadorObj w2 of
        ((result, err), w3) \<Rightarrow>
     if Requeue result then ((result, None), w3)
     else
     (case err of
        Some e \<Rightarrow> ((empty_Result, Some e), w3)
      | None \<Rightarrow>
     (case configmap_step r ctx limitadorObj w3 of
        (Some err, w4) \<Rightarrow> ((empty_Result, Some err), w4)
      | (None, w4) \<Rightarrow>
     (case pdb_step r ctx limitadorObj w4 of
        (Some err, w5) \<Rightarrow> ((empty_Result, Some err), w5)
      | (None, w5) \<Rightarrow> ((empty_Result, None), w5)))))))"

definition Reconcile ::
  "'c LimitadorReconciler \<Rightarrow> Context \<Rightarrow> NamespacedName \<Rightarrow> 'c \<Rightarrow> (Result \<times> error option) \<times> 'c" where
  "Reconcile r eventCtx req w =
     (let logger = WithValues (Logger r);
          ctx = NewContext eventCtx logger
      in
      case Client_Get r ctx req w of
        (Inl err, w0) \<Rightarrow>
          if IsNotFound err then ((empty_Result, None), w0)
          else ((empty_Result, Some err), w0)
      | (Inr limitadorObj, w0) \<Rightarrow>
      (case (if Enabled logger 1 then MarshalIndent r limitadorObj else Inr []) of
         Inl err \<Rightarrow> ((empty_Result, Some err), w0)
       | Inr jsonData \<Rightarrow>
      if DeletionTimestamp limitadorObj \<noteq> None then ((empty_Result, None), w0)
      else
      (case reconcileSpec r ctx limitadorObj w0 of
         ((specResult, specErr), w1) \<Rightarrow>
      (case status_step r ctx limitadorObj specErr w1 of
         ((statusResult, statusErr), w2) \<Rightarrow>
      if specErr \<noteq> None then ((empty_Result, specErr), w2)
      else if statusErr \<noteq> None then ((empty_Result, statusErr), w2)
      else if Requeue specResult then ((specResult, None), w2)
      else if Requeue statusResult then ((statusResult, None), w2)
      else ((empty_Result, None), w2)))))"

subsection \<open>Observing the calls\<close>

text \<open>
  To say which methods a pass calls, and in which order, the reconciler is run with
  methods that record their call: the state is paired with the list of calls so far, and
  each recording method does what the method does on the state and then appends its name.
  The definitions above are not touched by this.
\<close>

datatype call =
  Call_Service | Call_PVC | Call_Deployment | Call_ConfigMap | Call_Pdb
  | Call_Status "error option"

definition recording :: "call \<Rightarrow> ('c \<Rightarrow> 'a \<times> 'c) \<Rightarrow> 'c \<times> call list \<Rightarrow> 'a \<times> ('c \<times> call list)" where
  "recording c f = (\<lambda>(w, calls). case f w of (a, w') \<Rightarrow> (a, (w', calls @ [c])))"

definition silent :: "('c \<Rightarrow> 'a \<times> 'c) \<Rightarrow> 'c \<times> call list \<Rightarrow> 'a \<times> ('c \<times> call list)" where
  "silent f = (\<lambda>(w, calls). case f w of (a, w') \<Rightarrow> (a, (w', calls)))"

definition recorded :: "'c LimitadorReconciler \<Rightarrow> ('c \<times> call list) LimitadorReconciler" where
  "recorded r =
     \<lparr>Logger = Logger r,
      Client_Get = (\<lambda>ctx req. silent (Client_Get r ctx req)),
      MarshalIndent = MarshalIndent r,
      service_step = (\<lambda>ctx obj. recording Call_Service (service_step r ctx obj)),
      pvc_step = (\<lambda>ctx obj. recording Call_PVC (pvc_step r ctx obj)),
      deployment_step = (\<lambda>ctx obj. recording Call_Deployment (deployment_step r ctx obj)),
      configmap_step = (\<lambda>ctx obj. recording Call_ConfigMap (configmap_step r ctx obj)),
      pdb_step = (\<lambda>ctx obj. recording Call_Pdb (pdb_step r ctx obj)),
      status_step = (\<lambda>ctx obj specErr. recording (Call_Status specErr) (status_step r ctx obj specErr))\<rparr>"

section \<open>controllers: reconcilePdb\<close>

text \<open>
  What \<open>reconcilePdb\<close> calls and this repository keeps elsewhere: the base
  reconciler's \<open>GetResource\<close>, \<open>DeleteResource\<close>, \<open>SetOwnerReference\<close> and
  \<open>ReconcilePodDisruptionBudget\<close> (called with
  \<open>reconcilers.PodDisruptionBudgetMutator\<close>), and the package functions
  \<open>limitador.PodDisruptionBudgetName\<close>, \<open>limitador.PodDisruptionBudget\<close> and
  \<open>limitador.ValidatePDB\<close>. They are parameters. \<open>SetOwnerReference\<close> writes the
  owner into the budget it is given, so it returns the budget.
\<close>

record 'c PdbCollaborators =
  GetResource :: "Context \<Rightarrow> NamespacedName \<Rightarrow> 'c \<Rightarrow> (error + PodDisruptionBudget) \<times> 'c"
  DeleteResource :: "Context \<Rightarrow> PodDisruptionBudget \<Rightarrow> 'c \<Rightarrow> error option \<times> 'c"
  PodDisruptionBudgetName :: "Limitador \<Rightarrow> string"
  limitador_PodDisruptionBudget :: "Limitador \<Rightarrow> PodDisruptionBudget"
  ValidatePDB :: "PodDisruptionBudget \<Rightarrow> error option"
  SetOwnerReference :: "Limitador \<Rightarrow> PodDisruptionBudget \<Rightarrow> error + PodDisruptionBudget"
  ReconcilePodDisruptionBudget :: "Context \<Rightarrow> PodDisruptionBudget \<Rightarrow> 'c \<Rightarrow> error option \<times> 'c"

definition reconcilePdb ::
  "'c PdbCollaborators \<Rightarrow> Context \<Rightarrow> Limitador \<Rightarrow> 'c \<Rightarrow> error option \<times> 'c" where
  "reconcilePdb r ctx limitadorObj w =
     (case FromContext ctx of
        Inl err \<Rightarrow> (Some err, w)
      | Inr logger \<Rightarrow>
     if Spec_PodDisruptionBudget (Spec limitadorObj) = None then
       (case GetResource r ctx (Namespace limitadorObj, PodDisruptionBudgetName r limitadorObj) w of
          (Inl err, w1) \<Rightarrow> if IsNotFound err then (None, w1) else (Some err, w1)
        | (Inr pdb, w1) \<Rightarrow>
            if DeletionTimestamp pdb = None then
              (case DeleteResource r ctx pdb w1 of
                 (Some err, w2) \<Rightarrow> (Some err, w2)
               | (None, w2) \<Rightarrow> (None, w2))
            else (None, w1))
     else
       (let pdb = limitador_PodDisruptionBudget r limitadorObj in
        case ValidatePDB r pdb of
          Some err \<Rightarrow> (Some err, w)
        | None \<Rightarrow>
       (case SetOwnerReference r limitadorObj pdb of
          Inl err \<Rightarrow> (Some err, w)
        | Inr pdb1 \<Rightarrow>
       (case ReconcilePodDisruptionBudget r ctx pdb1 w of
          (Some err, w1) \<Rightarrow> (Some err, w1)
        | (None, w1) \<Rightarrow> (None, w1)))))"

text \<open>The calls of \<open>reconcilePdb\<close> to the cluster, recorded as above.\<close>

datatype pdb_call =
  Call_GetResource NamespacedName
  | Call_DeleteResource PodDisruptionBudget
  | Call_ReconcilePodDisruptionBudget PodDisruptionBudget

definition recording_pdb ::
  "pdb_call \<Rightarrow> ('c \<Rightarrow> 'a \<times> 'c) \<Rightarrow> 'c \<times> pdb_call list \<Rightarrow> 'a \<times> ('c \<times> pdb_call list)" where
  "recording_pdb c f = (\<lambda>(w, calls). case f w of (a, w') \<Rightarrow> (a, (w', calls @ [c])))"

definition recorded_pdb :: "'c PdbCollaborators \<Rightarrow> ('c \<times> pdb_call list) PdbCollaborators" where
  "recorded_pdb r =
     \<lparr>GetResource = (\<lambda>ctx key. recording_pdb (Call_GetResource key) (GetResource r ctx key)),
      DeleteResource = (\<lambda>ctx pdb. recording_pdb (Call_DeleteResource pdb) (DeleteResource r ctx pdb)),
      PodDisruptionBudgetName = PodDisruptionBudgetName r,
      limitador_PodDisruptionBudget = limitador_PodDisruptionBudget r,
      ValidatePDB = ValidatePDB r,
      SetOwnerReference = SetOwnerReference r,
      ReconcilePodDisruptionBudget =
        (\<lambda>ctx pdb. recording_pdb (Call_ReconcilePodDisruptionBudget pdb)
           (ReconcilePodDisruptionBudget r ctx pdb))\<rparr>"

section \<open>controllers: getDeploymentStorageOptions\<close>

text \<open>
  The four option builders of package \<open>limitador\<close> are parameters, with the
  reconciler's client; \<open>'o\<close> is \<open>limitador.DeploymentStorageOptions\<close>. The redis
  builders read the cluster through the client they are given.
\<close>

record ('cl, 'o) StorageOptionBuilders =
  Client :: 'cl
  limitador_RedisDeploymentOptions :: "Context \<Rightarrow> 'cl \<Rightarrow> string \<Rightarrow> Redis \<Rightarrow> error + 'o"
  limitador_RedisCachedDeploymentOptions :: "Context \<Rightarrow> 'cl \<Rightarrow> string \<Rightarrow> RedisCached \<Rightarrow> error + 'o"
  limitador_DiskDeploymentOptions :: "Limitador \<Rightarrow> DiskSpec \<Rightarrow> error + 'o"
  limitador_InMemoryDeploymentOptions :: "error + 'o"

definition getDeploymentStorageOptions ::
  "('cl, 'o) StorageOptionBuilders \<Rightarrow> Context \<Rightarrow> Limitador \<Rightarrow> error + 'o" where
  "getDeploymentStorageOptions r ctx limObj =
     (case Spec_Storage (Spec limObj) of
        Some storage \<Rightarrow>
          (case Storage_Redis storage of
             Some redis \<Rightarrow>
               limitador_RedisDeploymentOptions r ctx (Client r) (Namespace limObj) redis
           | None \<Rightarrow>
          (case Storage_RedisCached storage of
             Some redisCached \<Rightarrow>
               limitador_RedisCachedDeploymentOptions r ctx (Client r) (Namespace limObj) redisCached
           | None \<Rightarrow>
          (case Storage_Disk storage of
             Some disk \<Rightarrow> limitador_DiskDeploymentOptions r limObj disk
           | None \<Rightarrow> limitador_InMemoryDeploymentOptions r)))
      | None \<Rightarrow> limitador_InMemoryDeploymentOptions r)"

text \<open>
  The resolution as the specification words it: the branches in the order redis,
  redis-cached, disk; the first whose field is not nil is taken; in-memory otherwise.
\<close>

datatype backend =
  Backend_Redis Redis | Backend_RedisCached RedisCached | Backend_Disk DiskSpec

definition priority_order :: "Storage \<Rightarrow> backend option list" where
  "priority_order storage =
     [map_option Backend_Redis (Storage_Redis storage),
      map_option Backend_RedisCached (Storage_RedisCached storage),
      map_option Backend_Disk (Storage_Disk storage)]"

fun first_non_nil :: "'a option list \<Rightarrow> 'a option" where
  "first_non_nil [] = None"
| "first_non_nil (None # xs) = first_non_nil xs"
| "first_non_nil (Some x # xs) = Some x"

definition selected_backend :: "Limitador \<Rightarrow> backend option" where
  "selected_backend limObj =
     (case Spec_Storage (Spec limObj) of
        None \<Rightarrow> None
      | Some storage \<Rightarrow> first_non_nil (priority_order storage))"

definition options_of_backend ::
  "('cl, 'o) StorageOptionBuilders \<Rightarrow> Context \<Rightarrow> Limitador \<Rightarrow> backend option \<Rightarrow> error + 'o" where
  "options_of_backend r ctx limObj b =
     (case b of
        Some (Backend_Redis redis) \<Rightarrow>
          limitador_RedisDeploymentOptions r ctx (Client r) (Namespace limObj) redis
      | Some (Backend_RedisCached redisCached) \<Rightarrow>
          limitador_RedisCachedDeploymentOptions r ctx (Client r) (Namespace limObj) redisCached
      | Some (Backend_Disk disk) \<Rightarrow> limitador_DiskDeploymentOptions r limObj disk
      | None \<Rightarrow> limitador_InMemoryDeploymentOptions r)"

section \<open>pkg/limitador: the redis option builders\<close>

text \<open>
  Of \<open>RedisDeploymentOptions\<close> and \<open>RedisCachedDeploymentOptions\<close> the sources hold
  the test only (\<open>redis_cache_storage_options_test.go\<close>); the functions follow the
  specification, section 4.1, with the messages and the command the test expects. The
  client is the secret lookup: given the default namespace and the reference, the secret
  or the error of the fetch.
\<close>

record Secret = ObjectMeta +
  Secret_Data :: "string \<rightharpoonup> string"

datatype StrategyType = Strategy_unset | RollingUpdate | Recreate

record DeploymentStorageOptions =
  Command :: "string list"
  Volumes :: "string list"
  VolumeMounts :: "string list"
  DeploymentStrategy :: StrategyType

type_synonym SecretClient = "string \<Rightarrow> ObjectReference \<Rightarrow> error + Secret"

definition digit_char :: "nat \<Rightarrow> char" where
  "digit_char d = ''0123456789'' ! d"

fun digits :: "nat \<Rightarrow> string" where
  "digits n = (if n < 10 then [digit_char n] else digits (n div 10) @ [digit_char (n mod 10)])"

declare digits.simps [simp del]

text \<open>\<open>strconv.Itoa\<close>: the decimal numeral of an integer, with its sign.\<close>

definition Itoa :: "int \<Rightarrow> string" where
  "Itoa i = (if i < 0 then CHR ''-'' # digits (nat (- i)) else digits (nat i))"

text \<open>
  Modelled from the spec: the secret requirement of the redis and redis-cached branches
  (the body of both builders is missing from the sources). The secret the reference names
  is fetched, a failure of the fetch is returned as it is, and a secret without the
  \<open>URL\<close> key is a configuration error.
\<close>

definition validateRedisSecret :: "SecretClient \<Rightarrow> string \<Rightarrow> ObjectReference \<Rightarrow> error option" where
  "validateRedisSecret cl defSecretNamespace secretRef =
     (case cl defSecretNamespace secretRef of
        Inl err \<Rightarrow> Some err
      | Inr secret \<Rightarrow>
          (case Secret_Data secret ''URL'' of
             None \<Rightarrow> Some (ConfigurationError ''the storage config Secret doesn't have the `URL` field'')
           | Some url \<Rightarrow> None))"

text \<open>
  Modelled from the spec: \<open>RedisDeploymentOptions\<close> (missing from the sources). It
  requires the secret reference and the secret with its \<open>URL\<close> field, and yields the
  \<open>redis\<close> argument with the URL by environment variable.
\<close>

definition RedisDeploymentOptions ::
  "Context \<Rightarrow> SecretClient \<Rightarrow> string \<Rightarrow> Redis \<Rightarrow> error + DeploymentStorageOptions" where
  "RedisDeploymentOptions ctx cl defSecretNamespace redisObj =
     (case Redis_ConfigSecretRef redisObj of
        None \<Rightarrow> Inl (ConfigurationError ''there's no ConfigSecretRef set'')
      | Some secretRef \<Rightarrow>
     (case validateRedisSecret cl defSecretNamespace secretRef of
        Some err \<Rightarrow> Inl err
      | None \<Rightarrow>
          Inr \<lparr>Command = [''redis'', ''$(LIMITADOR_OPERATOR_REDIS_URL)''],
               Volumes = [], VolumeMounts = [], DeploymentStrategy = Strategy_unset\<rparr>))"

text \<open>
  Modelled from the spec: \<open>RedisCachedDeploymentOptions\<close> (missing from the sources; its
  test is \<open>TestRedisCachedDeploymentOptions\<close>). The same secret requirement; the
  \<open>redis_cached\<close> argument with the URL by environment variable; then, for each of ttl,
  ratio, flush-period and max-cached in this order, the flag and the value when the option
  is set.
\<close>

definition RedisCachedDeploymentOptions ::
  "Context \<Rightarrow> SecretClient \<Rightarrow> string \<Rightarrow> RedisCached \<Rightarrow> error + DeploymentStorageOptions" where
  "RedisCachedDeploymentOptions ctx cl defSecretNamespace redisCachedObj =
     (case RedisCached_ConfigSecretRef redisCachedObj of
        None \<Rightarrow> Inl (ConfigurationError ''there's no ConfigSecretRef set'')
      | Some secretRef \<Rightarrow>
     (case validateRedisSecret cl defSecretNamespace secretRef of
        Some err \<Rightarrow> Inl err
      | None \<Rightarrow>
     (let command = [''redis_cached'', ''$(LIMITADOR_OPERATOR_REDIS_URL)''];
          command =
            (case Options redisCachedObj of
               None \<Rightarrow> command
             | Some opts \<Rightarrow>
                 (let command = (case TTL opts of None \<Rightarrow> command
                                 | Some v \<Rightarrow> command @ [''--ttl'', Itoa v]);
                      command = (case Ratio opts of None \<Rightarrow> command
                                 | Some v \<Rightarrow> command @ [''--ratio'', Itoa v]);
                      command = (case FlushPeriod opts of None \<Rightarrow> command
                                 | Some v \<Rightarrow> command @ [''--flush-period'', Itoa v]);
                      command = (case MaxCached opts of None \<Rightarrow> command
                                 | Some v \<Rightarrow> command @ [''--max-cached'', Itoa v])
                  in command))
      in Inr \<lparr>Command = command, Volumes = [], VolumeMounts = [],
              DeploymentStrategy = Strategy_unset\<rparr>)))"

text \<open>The flags of a set of options, as the specification lists them.\<close>

definition flag_pair :: "string \<Rightarrow> int option \<Rightarrow> string list" where
  "flag_pair flag v = (case v of None \<Rightarrow> [] | Some i \<Rightarrow> [flag, Itoa i])"

definition option_flags :: "RedisCachedOptions option \<Rightarrow> string list" where
  "option_flags opts =
     (case opts of
        None \<Rightarrow> []
      | Some o1 \<Rightarrow>
          flag_pair ''--ttl'' (TTL o1) @ flag_pair ''--ratio'' (Ratio o1) @
          flag_pair ''--flush-period'' (FlushPeriod o1) @ flag_pair ''--max-cached'' (MaxCached o1))"

section \<open>controllers: mutateLimitsConfigMap\<close>

text \<open>
  A \<open>client.Object\<close> is a ConfigMap or an object of another type, known by the name of
  its type. The \<open>Data\<close> of a ConfigMap is a Go map: nil (\<open>None\<close>) or a map; reading
  a key of a nil map, or a key that is missing, gives the empty string; assigning to a key
  of a nil map panics.

  \<open>yaml.Unmarshal\<close> into a \<open>[]RateLimit\<close> and the key
  \<open>limitador.LimitadorConfigFileName\<close> are parameters. A slice is nil (\<open>None\<close>) or a
  list, and \<open>reflect.DeepEqual\<close> tells the nil slice from the empty one; \<open>'r\<close> is
  the rule record, compared by \<open>DeepEqual\<close> as HOL compares by equality.
\<close>

record ConfigMap = ObjectMeta +
  Data :: "(string \<rightharpoonup> string) option"

datatype client_Object = ConfigMap_Object ConfigMap | Other_Object string

datatype 'a outcome = Panic string | Return 'a

definition map_index :: "(string \<rightharpoonup> string) option \<Rightarrow> string \<Rightarrow> string" where
  "map_index m k = (case m of None \<Rightarrow> [] | Some f \<Rightarrow> (case f k of None \<Rightarrow> [] | Some v \<Rightarrow> v))"

definition DeepEqual :: "'r list option \<Rightarrow> 'r list option \<Rightarrow> bool" where
  "DeepEqual a b = (a = b)"

definition mutateLimitsConfigMap ::
  "(string \<Rightarrow> error + 'r list option) \<Rightarrow> string \<Rightarrow> client_Object \<Rightarrow> client_Object
     \<Rightarrow> ((bool \<times> error option) \<times> client_Object) outcome" where
  "mutateLimitsConfigMap Unmarshal LimitadorConfigFileName existingObj desiredObj =
     (case existingObj of
        Other_Object T \<Rightarrow>
          Return ((False, Some (Failure (T @ '' is not a *v1.ConfigMap''))), existingObj)
      | ConfigMap_Object existing \<Rightarrow>
     (case desiredObj of
        Other_Object T \<Rightarrow>
          Return ((False, Some (Failure (T @ '' is not a *v1.ConfigMap''))), existingObj)
      | ConfigMap_Object desired \<Rightarrow>
     (case Unmarshal (map_index (Data desired) LimitadorConfigFileName) of
        Inl err \<Rightarrow> Return ((False, Some err), existingObj)
      | Inr desiredLimits \<Rightarrow>
     (let existingLimits =
            (case Unmarshal (map_index (Data existing) LimitadorConfigFileName) of
               Inl err \<Rightarrow> None
             | Inr limits \<Rightarrow> limits)
      in
      if \<not> DeepEqual desiredLimits existingLimits then
        (case Data existing of
           None \<Rightarrow> Panic ''assignment to entry in nil map''
         | Some m \<Rightarrow>
             Return ((True, None),
               ConfigMap_Object
                 (existing\<lparr>Data :=
                    Some (m(LimitadorConfigFileName \<mapsto>
                      map_index (Data desired) LimitadorConfigFileName))\<rparr>)))
      else Return ((False, None), existingObj)))))"

section \<open>controllers: reconcileLimitsConfigMap\<close>

text \<open>
  What \<open>reconcileLimitsConfigMap\<close> calls and this repository keeps elsewhere: the
  builder \<open>limitador.LimitsConfigMap\<close>, the base reconciler's \<open>SetOwnerReference\<close>
  (it writes the owner into the ConfigMap it is given, so it returns the ConfigMap) and
  \<open>ReconcileConfigMap\<close>, and \<open>upgrades.UpgradeConfigMapTov070\<close>. The builder, the
  owner reference and the upgrade are parameters, with the client's calls for ConfigMaps
  that \<open>ReconcileConfigMap\<close> makes, \<open>yaml.Unmarshal\<close> and the key of the payload.
\<close>

record ('c, 'r) ConfigMapCollaborators =
  LimitsConfigMap :: "Limitador \<Rightarrow> error + ConfigMap"
  cm_SetOwnerReference :: "Limitador \<Rightarrow> ConfigMap \<Rightarrow> error + ConfigMap"
  cm_Get :: "Context \<Rightarrow> NamespacedName \<Rightarrow> 'c \<Rightarrow> (error + ConfigMap) \<times> 'c"
  cm_Create :: "Context \<Rightarrow> ConfigMap \<Rightarrow> 'c \<Rightarrow> error option \<times> 'c"
  cm_Update :: "Context \<Rightarrow> client_Object \<Rightarrow> 'c \<Rightarrow> error option \<times> 'c"
  UpgradeConfigMapTov070 :: "Context \<Rightarrow> Limitador \<Rightarrow> 'c \<Rightarrow> error option \<times> 'c"
  yaml_Unmarshal :: "string \<Rightarrow> error + 'r list option"
  LimitadorConfigFileName :: string

text \<open>
  Modelled from the spec: \<open>ReconcileConfigMap\<close> of the base reconciler
  (\<open>pkg/reconcilers\<close>, missing from the sources), the protocol of section 4.3 for one
  kind. The existing object is fetched by the namespace and name of the desired one. If
  it is absent, the desired object is created. If it is present, the mutator is given the
  existing and the desired object: its failure is the failure of the call (section 7: an
  error of a deeper step is surfaced to the caller and ends the pass); if it reports a
  change, the merged object is updated; otherwise nothing is written. Any other error of
  the fetch is returned. A panic of the mutator is a panic of the call.
\<close>

definition ReconcileConfigMap ::
  "('c, 'r) ConfigMapCollaborators \<Rightarrow> Context \<Rightarrow> ConfigMap
     \<Rightarrow> (client_Object \<Rightarrow> client_Object \<Rightarrow> ((bool \<times> error option) \<times> client_Object) outcome)
     \<Rightarrow> 'c \<Rightarrow> (error option \<times> 'c) outcome" where
  "ReconcileConfigMap r ctx desired mutateFn w =
     (case cm_Get r ctx (Namespace desired, Name desired) w of
        (Inl err, w1) \<Rightarrow>
          if IsNotFound err then Return (cm_Create r ctx desired w1) else Return (Some err, w1)
      | (Inr existing, w1) \<Rightarrow>
          (case mutateFn (ConfigMap_Object existing) (ConfigMap_Object desired) of
             Panic msg \<Rightarrow> Panic msg
           | Return ((changed, Some err), merged) \<Rightarrow> Return (Some err, w1)
           | Return ((changed, None), merged) \<Rightarrow>
               if changed then Return (cm_Update r ctx merged w1) else Return (None, w1)))"

text \<open>
  \<open>reconcileLimitsConfigMap\<close>, lines 263 to 291. It returns an error or nil with the
  new cluster, or it panics where the mutator panics.
\<close>

definition reconcileLimitsConfigMap ::
  "('c, 'r) ConfigMapCollaborators \<Rightarrow> Context \<Rightarrow> Limitador \<Rightarrow> 'c \<Rightarrow> (error option \<times> 'c) outcome" where
  "reconcileLimitsConfigMap r ctx limitadorObj w =
     (case FromContext ctx of
        Inl err \<Rightarrow> Return (Some err, w)
      | Inr logger \<Rightarrow>
     (case LimitsConfigMap r limitadorObj of
        Inl err \<Rightarrow> Return (Some err, w)
      | Inr limitsConfigMap \<Rightarrow>
     (case cm_SetOwnerReference r limitadorObj limitsConfigMap of
        Inl err \<Rightarrow> Return (Some err, w)
      | Inr limitsConfigMap1 \<Rightarrow>
     (case ReconcileConfigMap r ctx limitsConfigMap1
             (mutateLimitsConfigMap (yaml_Unmarshal r) (LimitadorConfigFileName r)) w of
        Panic msg \<Rightarrow> Panic msg
      | Return (Some err, w1) \<Rightarrow> Return (Some err, w1)
      | Return (None, w1) \<Rightarrow>
     (case UpgradeConfigMapTov070 r ctx limitadorObj w1 of
        (Some err, w2) \<Rightarrow> Return (Some err, w2)
      | (None, w2) \<Rightarrow> Return (None, w2))))))"

section \<open>Concrete values on which the theorems are exercised\<close>

definition demo_Limitador :: Limitador where
  "demo_Limitador =
     \<lparr>Name = ''limitador'', Namespace = ''default'', DeletionTimestamp = None, Annotations = None,
      Spec = \<lparr>Replicas = None, Spec_Storage = None, Spec_PodDisruptionBudget = None\<rparr>\<rparr>"

definition demo_Context :: Context where
  "demo_Context = \<lparr>ctx_logger = None\<rparr>"

definition demo_Logger :: Logger where
  "demo_Logger = \<lparr>Enabled = (\<lambda>level. False)\<rparr>"

text \<open>
  A reconciler whose cluster is a counter of the calls that reached it: \<open>Get\<close> finds
  \<open>demo_Limitador\<close>, and the results of the dump and of the six methods are given.
\<close>

definition demo_reconciler ::
  "bool \<Rightarrow> error + string \<Rightarrow> error option \<Rightarrow> error option \<Rightarrow> Result \<times> error option
     \<Rightarrow> error option \<Rightarrow> error option \<Rightarrow> Result \<times> error option \<Rightarrow> nat LimitadorReconciler" where
  "demo_reconciler verbose dump svc pvc dep cm pdb st =
     \<lparr>Logger = \<lparr>Enabled = (\<lambda>level. verbose)\<rparr>,
      Client_Get = (\<lambda>ctx req w. (Inr demo_Limitador, w)),
      MarshalIndent = (\<lambda>obj. dump),
      service_step = (\<lambda>ctx obj w. (svc, Suc w)),
      pvc_step = (\<lambda>ctx obj w. (pvc, Suc w)),
      deployment_step = (\<lambda>ctx obj w. (dep, Suc w)),
      configmap_step = (\<lambda>ctx obj w. (cm, Suc w)),
      pdb_step = (\<lambda>ctx obj w. (pdb, Suc w)),
      status_step = (\<lambda>ctx obj specErr w. (st, Suc w))\<rparr>"

definition demo_pdb :: "nat option \<Rightarrow> PodDisruptionBudget" where
  "demo_pdb deleting =
     \<lparr>Name = ''limitador'', Namespace = ''default'', DeletionTimestamp = deleting, Annotations = None,
      pdb_Spec = \<lparr>MaxUnavailable = Some 1, MinAvailable = None\<rparr>\<rparr>"

text \<open>
  Collaborators over a cluster that is a table of budgets by namespace and name:
  \<open>GetResource\<close> looks the key up, \<open>DeleteResource\<close> removes the budget.
\<close>

definition demo_PdbCollaborators :: "(NamespacedName \<rightharpoonup> PodDisruptionBudget) PdbCollaborators" where
  "demo_PdbCollaborators =
     \<lparr>GetResource =
        (\<lambda>ctx key w. (case w key of None \<Rightarrow> Inl (NotFound (snd key)) | Some pdb \<Rightarrow> Inr pdb, w)),
      DeleteResource = (\<lambda>ctx pdb w. (None, w((Namespace pdb, Name pdb) := None))),
      PodDisruptionBudgetName = (\<lambda>obj. Name obj),
      limitador_PodDisruptionBudget = (\<lambda>obj. demo_pdb None),
      ValidatePDB = (\<lambda>pdb. None),
      SetOwnerReference = (\<lambda>owner pdb. Inr pdb),
      ReconcilePodDisruptionBudget = (\<lambda>ctx pdb w. (None, w((Namespace pdb, Name pdb) \<mapsto> pdb)))\<rparr>"

definition demo_secretRef :: ObjectReference where
  "demo_secretRef = \<lparr>ref_Name = ''redisSecret'', ref_Namespace = ''some-ns''\<rparr>"

definition demo_Storage :: Storage where
  "demo_Storage =
     \<lparr>Storage_Redis = Some \<lparr>Redis_ConfigSecretRef = Some demo_secretRef\<rparr>,
      Storage_RedisCached = Some \<lparr>RedisCached_ConfigSecretRef = Some demo_secretRef, Options = None\<rparr>,
      Storage_Disk = Some \<lparr>Optimize = None\<rparr>\<rparr>"

definition demo_with_Storage :: "Storage option \<Rightarrow> Limitador" where
  "demo_with_Storage st = demo_Limitador\<lparr>Spec := (Spec demo_Limitador)\<lparr>Spec_Storage := st\<rparr>\<rparr>"

text \<open>Builders that only say which one was called.\<close>

definition demo_Builders :: "(unit, string) StorageOptionBuilders" where
  "demo_Builders =
     \<lparr>Client = (),
      limitador_RedisDeploymentOptions = (\<lambda>ctx cl ns redis. Inr ''redis''),
      limitador_RedisCachedDeploymentOptions = (\<lambda>ctx cl ns redisCached. Inr ''redis_cached''),
      limitador_DiskDeploymentOptions = (\<lambda>limObj disk. Inr ''disk''),
      limitador_InMemoryDeploymentOptions = Inr ''memory''\<rparr>"

definition demo_Secret :: "(string \<rightharpoonup> string) \<Rightarrow> Secret" where
  "demo_Secret d =
     \<lparr>Name = ''redisSecret'', Namespace = ''some-ns'', DeletionTimestamp = None, Annotations = None,
      Secret_Data = d\<rparr>"

text \<open>The fake client of the test: the secrets it was built with, found by name.\<close>

definition demo_SecretClient :: "Secret list \<Rightarrow> SecretClient" where
  "demo_SecretClient objs defSecretNamespace secretRef =
     (case List.find (\<lambda>s. Name s = ref_Name secretRef) objs of
        None \<Rightarrow> Inl (NotFound (ref_Name secretRef))
      | Some s \<Rightarrow> Inr s)"

definition demo_ConfigMap :: "(string \<rightharpoonup> string) option \<Rightarrow> ConfigMap" where
  "demo_ConfigMap d =
     \<lparr>Name = ''limits-config-limitador'', Namespace = ''default'', DeletionTimestamp = None,
      Annotations = None, Data = d\<rparr>"

text \<open>A ConfigMap whose data is the one key \<open>limitador-config.yaml\<close> with the payload given.\<close>

definition demo_ConfigMap_of :: "string \<Rightarrow> ConfigMap" where
  "demo_ConfigMap_of payload = demo_ConfigMap (Some [''limitador-config.yaml'' \<mapsto> payload])"

text \<open>
  A stand-in for \<open>yaml.Unmarshal\<close> into a \<open>[]RateLimit\<close> on the four documents the
  examples use: the empty document and \<open>null\<close> leave the slice nil, \<open>[]\<close> is the
  empty list, and \<open>{\<close>, a mapping that is never closed, is an error. No other
  document is given to it; it answers them with the same error.
\<close>

definition demo_Unmarshal :: "string \<Rightarrow> error + 'r list option" where
  "demo_Unmarshal doc =
     (if doc = [] \<or> doc = ''null'' then Inr None
      else if doc = ''[]'' then Inr (Some [])
      else Inl (Failure ''yaml: cannot unmarshal''))"

text \<open>
  Collaborators of \<open>reconcileLimitsConfigMap\<close> over the counter of calls: the builder
  yields a ConfigMap with the first payload, the cluster holds one with the second, and
  looking it up is one call.
\<close>

definition demo_ConfigMapCollaborators :: "string \<Rightarrow> string \<Rightarrow> (nat, 'r) ConfigMapCollaborators" where
  "demo_ConfigMapCollaborators desiredPayload existingPayload =
     \<lparr>LimitsConfigMap = (\<lambda>obj. Inr (demo_ConfigMap_of desiredPayload)),
      cm_SetOwnerReference = (\<lambda>owner cm. Inr cm),
      cm_Get = (\<lambda>ctx key w. (Inr (demo_ConfigMap_of existingPayload), Suc w)),
      cm_Create = (\<lambda>ctx cm w. (None, w)),
      cm_Update = (\<lambda>ctx obj w. (None, w)),
      UpgradeConfigMapTov070 = (\<lambda>ctx obj w. (None, w)),
      yaml_Unmarshal = demo_Unmarshal,
      LimitadorConfigFileName = ''limitador-config.yaml''\<rparr>"

section \<open>Properties of the delete tag\<close>

lemma tagged_iff:
  "IsObjectTaggedToDelete obj s \<longleftrightarrow>
     (\<exists>a. Annotations obj = Some a \<and> maps s a DeleteTagAnnotation = Some ''true'')"
  by (simp add: IsObjectTaggedToDelete_def GetAnnotations_def split: option.splits)

lemma tag_sets_annotation:
  "\<exists>a. Annotations (fst (TagObjectToDelete obj s)) = Some a \<and>
       maps (snd (TagObjectToDelete obj s)) a DeleteTagAnnotation = Some ''true''"
  by (simp add: TagObjectToDelete_def GetAnnotations_def SetAnnotations_def make_map_def
      map_assign_def split: option.splits)

text \<open>
  C10. After \<open>TagObjectToDelete\<close>, \<open>IsObjectTaggedToDelete\<close> on the same object is
  true, whatever the object's annotations were before (nil included); and
  \<open>IsObjectTaggedToDelete\<close> is true only when the object has an annotation map that
  holds the delete annotation with the exact value \<open>true\<close>: it is false on a nil map,
  and on a map it is true exactly when the map holds that value under the delete key.
\<close>

theorem tag_then_tagged:
  "IsObjectTaggedToDelete (fst (TagObjectToDelete obj s)) (snd (TagObjectToDelete obj s)) \<and>
   (IsObjectTaggedToDelete obj s \<longrightarrow>
      (\<exists>a. Annotations obj = Some a \<and> maps s a DeleteTagAnnotation = Some ''true'')) \<and>
   (Annotations obj = None \<longrightarrow> \<not> IsObjectTaggedToDelete obj s) \<and>
   (\<forall>a. Annotations obj = Some a \<longrightarrow>
      IsObjectTaggedToDelete obj s = (maps s a DeleteTagAnnotation = Some ''true''))"
  using tag_sets_annotation [of obj s] by (simp add: tagged_iff)

theorem tag_then_tagged_witness:
  "IsObjectTaggedToDelete
     (fst (TagObjectToDelete \<lparr>Name = ''limitador'', Namespace = ''default'', DeletionTimestamp = None,
        Annotations = None, Kind = ''Deployment''\<rparr>
             \<lparr>maps = (\<lambda>_. Map.empty), fresh = 0\<rparr>))
     (snd (TagObjectToDelete \<lparr>Name = ''limitador'', Namespace = ''default'', DeletionTimestamp = None,
        Annotations = None, Kind = ''Deployment''\<rparr>
             \<lparr>maps = (\<lambda>_. Map.empty), fresh = 0\<rparr>)) \<and>
   IsObjectTaggedToDelete \<lparr>Name = ''limitador'', Namespace = ''default'', DeletionTimestamp = None,
        Annotations = Some 0, Kind = ''Deployment''\<rparr>
     \<lparr>maps = (\<lambda>_. [DeleteTagAnnotation \<mapsto> ''true'']), fresh = 1\<rparr> \<and>
   (\<exists>a. Annotations \<lparr>Name = ''limitador'', Namespace = ''default'', DeletionTimestamp = None,
        Annotations = Some 0, Kind = ''Deployment''\<rparr> = Some a \<and>
        maps \<lparr>maps = (\<lambda>_. [DeleteTagAnnotation \<mapsto> ''true'']), fresh = 1\<rparr> a DeleteTagAnnotation
          = Some ''true'') \<and>
   \<not> IsObjectTaggedToDelete \<lparr>Name = ''limitador'', Namespace = ''default'', DeletionTimestamp = None,
        Annotations = Some 0, Kind = ''Deployment''\<rparr>
     \<lparr>maps = (\<lambda>_. [DeleteTagAnnotation \<mapsto> ''True'']), fresh = 1\<rparr>"
  using tag_then_tagged [of "\<lparr>Name = ''limitador'', Namespace = ''default'', DeletionTimestamp = None,
        Annotations = None, Kind = ''Deployment''\<rparr>"
      "\<lparr>maps = (\<lambda>_. Map.empty), fresh = 0\<rparr>"]
    tag_then_tagged [of "\<lparr>Name = ''limitador'', Namespace = ''default'', DeletionTimestamp = None,
        Annotations = Some 0, Kind = ''Deployment''\<rparr>"
      "\<lparr>maps = (\<lambda>_. [DeleteTagAnnotation \<mapsto> ''true'']), fresh = 1\<rparr>"]
    tag_then_tagged [of "\<lparr>Name = ''limitador'', Namespace = ''default'', DeletionTimestamp = None,
        Annotations = Some 0, Kind = ''Deployment''\<rparr>"
      "\<lparr>maps = (\<lambda>_. [DeleteTagAnnotation \<mapsto> ''True'']), fresh = 1\<rparr>"]
  by (simp add: IsObjectTaggedToDelete_def GetAnnotations_def)

section \<open>Properties of reconcileSpec and Reconcile\<close>

lemma recorded_simps:
  "service_step (recorded r) ctx obj (w, cs) = (case service_step r ctx obj w of (a, w') \<Rightarrow> (a, (w', cs @ [Call_Service])))"
  "pvc_step (recorded r) ctx obj (w, cs) = (case pvc_step r ctx obj w of (a, w') \<Rightarrow> (a, (w', cs @ [Call_PVC])))"
  "deployment_step (recorded r) ctx obj (w, cs) = (case deployment_step r ctx obj w of (a, w') \<Rightarrow> (a, (w', cs @ [Call_Deployment])))"
  "configmap_step (recorded r) ctx obj (w, cs) = (case configmap_step r ctx obj w of (a, w') \<Rightarrow> (a, (w', cs @ [Call_ConfigMap])))"
  "pdb_step (recorded r) ctx obj (w, cs) = (case pdb_step r ctx obj w of (a, w') \<Rightarrow> (a, (w', cs @ [Call_Pdb])))"
  "status_step (recorded r) ctx obj e (w, cs) = (case status_step r ctx obj e w of (a, w') \<Rightarrow> (a, (w', cs @ [Call_Status e])))"
  "Client_Get (recorded r) ctx req (w, cs) = (case Client_Get r ctx req w of (a, w') \<Rightarrow> (a, (w', cs)))"
  "MarshalIndent (recorded r) = MarshalIndent r"
  "Logger (recorded r) = Logger r"
  by (simp_all add: recorded_def recording_def silent_def)

lemma reconcileSpec_recorded:
  assumes "service_step r ctx obj w = (e1, w1)"
    and "pvc_step r ctx obj w1 = (e2, w2)"
    and "deployment_step r ctx obj w2 = ((r3, e3), w3)"
    and "configmap_step r ctx obj w3 = (e4, w4)"
    and "pdb_step r ctx obj w4 = (e5, w5)"
  shows "reconcileSpec (recorded r) ctx obj (w, cs) =
     (if e1 \<noteq> None then ((empty_Result, e1), (w1, cs @ [Call_Service]))
      else if e2 \<noteq> None then ((empty_Result, e2), (w2, cs @ [Call_Service, Call_PVC]))
      else if Requeue r3 then ((r3, None), (w3, cs @ [Call_Service, Call_PVC, Call_Deployment]))
      else if e3 \<noteq> None then ((empty_Result, e3), (w3, cs @ [Call_Service, Call_PVC, Call_Deployment]))
      else if e4 \<noteq> None then
        ((empty_Result, e4), (w4, cs @ [Call_Service, Call_PVC, Call_Deployment, Call_ConfigMap]))
      else ((empty_Result, e5),
            (w5, cs @ [Call_Service, Call_PVC, Call_Deployment, Call_ConfigMap, Call_Pdb])))"
  using assms by (auto simp add: reconcileSpec_def recorded_simps split: option.splits)

text \<open>The recording changes neither the result nor the cluster, and records no status call.\<close>

lemma reconcileSpec_recorded_same:
  "\<exists>t. reconcileSpec (recorded r) ctx obj (w, cs) =
        (fst (reconcileSpec r ctx obj w), (snd (reconcileSpec r ctx obj w), cs @ t)) \<and>
       (\<forall>e. Call_Status e \<notin> set t)"
  by (auto simp add: reconcileSpec_def recorded_simps split: option.splits prod.splits)

text \<open>
  C7. \<open>reconcileSpec\<close> calls the steps in the order Service, PersistentVolumeClaim,
  Deployment, ConfigMap, PodDisruptionBudget. With the results of the five steps named as
  they would follow one another, the pass stops at the first step that returns an error,
  with that error and the cluster as that step left it, and no later step is called; a
  requeue from the Deployment step returns at once with the Deployment step's result, and
  the ConfigMap and PodDisruptionBudget steps are not called.
\<close>

theorem reconcileSpec_order:
  assumes "service_step r ctx obj w = (e1, w1)"
    and "pvc_step r ctx obj w1 = (e2, w2)"
    and "deployment_step r ctx obj w2 = ((r3, e3), w3)"
    and "configmap_step r ctx obj w3 = (e4, w4)"
    and "pdb_step r ctx obj w4 = (e5, w5)"
  shows "reconcileSpec (recorded r) ctx obj (w, []) =
     (if e1 \<noteq> None then ((empty_Result, e1), (w1, [Call_Service]))
      else if e2 \<noteq> None then ((empty_Result, e2), (w2, [Call_Service, Call_PVC]))
      else if Requeue r3 then ((r3, None), (w3, [Call_Service, Call_PVC, Call_Deployment]))
      else if e3 \<noteq> None then ((empty_Result, e3), (w3, [Call_Service, Call_PVC, Call_Deployment]))
      else if e4 \<noteq> None then
        ((empty_Result, e4), (w4, [Call_Service, Call_PVC, Call_Deployment, Call_ConfigMap]))
      else ((empty_Result, e5),
            (w5, [Call_Service, Call_PVC, Call_Deployment, Call_ConfigMap, Call_Pdb])))"
  using reconcileSpec_recorded [OF assms, of "[]"] by simp

theorem reconcileSpec_order_witness:
  "reconcileSpec
     (recorded (demo_reconciler False (Inr []) None None
        (\<lparr>Requeue = True, RequeueAfter = 0\<rparr>, None) None None (empty_Result, None)))
     demo_Context demo_Limitador (0, []) =
   ((\<lparr>Requeue = True, RequeueAfter = 0\<rparr>, None),
    (3, [Call_Service, Call_PVC, Call_Deployment]))"
  using reconcileSpec_order [of
      "demo_reconciler False (Inr []) None None
        (\<lparr>Requeue = True, RequeueAfter = 0\<rparr>, None) None None (empty_Result, None)"
      demo_Context demo_Limitador 0 None 1 None 2 "\<lparr>Requeue = True, RequeueAfter = 0\<rparr>" None 3 None 4 None 5]
  by (simp add: demo_reconciler_def)

text \<open>
  C8. When the Deployment step returns a requeue together with an error,
  \<open>reconcileSpec\<close> returns the step's result with no error: the error is dropped.
\<close>

theorem requeue_discards_error:
  assumes "service_step r ctx obj w = (None, w1)"
    and "pvc_step r ctx obj w1 = (None, w2)"
    and "deployment_step r ctx obj w2 = ((result, Some err), w3)"
    and "Requeue result"
  shows "reconcileSpec r ctx obj w = ((result, None), w3)"
  using assms by (simp add: reconcileSpec_def)

theorem requeue_discards_error_witness:
  "reconcileSpec
     (demo_reconciler False (Inr []) None None
        (\<lparr>Requeue = True, RequeueAfter = 5\<rparr>, Some (Failure ''deployment not available'')) None None (empty_Result, None))
     demo_Context demo_Limitador 0 =
   ((\<lparr>Requeue = True, RequeueAfter = 5\<rparr>, None), 3)"
  using requeue_discards_error [of
      "demo_reconciler False (Inr []) None None
        (\<lparr>Requeue = True, RequeueAfter = 5\<rparr>, Some (Failure ''deployment not available'')) None None (empty_Result, None)"
      demo_Context demo_Limitador 0 1 2 "\<lparr>Requeue = True, RequeueAfter = 5\<rparr>" "Failure ''deployment not available''" 3]
  by (simp add: demo_reconciler_def)

text \<open>
  C1. For every invocation of \<open>Reconcile\<close> on an existing declaration that is not
  marked for deletion (the dump of the declaration at verbosity level 1, which
  \<open>json.MarshalIndent\<close> makes of an object that \<open>Get\<close> has decoded, having
  succeeded where it is made): \<open>reconcileStatus\<close> is called after \<open>reconcileSpec\<close>,
  with the error of \<open>reconcileSpec\<close>, whether that error is nil or not, and it is the
  last call of the pass, after the calls of \<open>reconcileSpec\<close>; the result is the spec
  error if there is one, otherwise the status error if there is one, otherwise the spec
  result if it asks for a requeue, otherwise the status result if it asks for a requeue,
  otherwise the empty result with no error.
\<close>

theorem Reconcile_precedence:
  assumes "Client_Get r (NewContext eventCtx (WithValues (Logger r))) req w = (Inr obj, w0)"
    and "DeletionTimestamp obj = None"
    and "Enabled (Logger r) 1 \<longrightarrow> MarshalIndent r obj = Inr jsonData"
    and "reconcileSpec r (NewContext eventCtx (WithValues (Logger r))) obj w0 =
           ((specResult, specErr), w1)"
    and "status_step r (NewContext eventCtx (WithValues (Logger r))) obj specErr w1 =
           ((statusResult, statusErr), w2)"
  shows "\<exists>t. Reconcile (recorded r) eventCtx req (w, []) =
           ((if specErr \<noteq> None then (empty_Result, specErr)
             else if statusErr \<noteq> None then (empty_Result, statusErr)
             else if Requeue specResult then (specResult, None)
             else if Requeue statusResult then (statusResult, None)
             else (empty_Result, None)),
            (w2, t @ [Call_Status specErr])) \<and>
          reconcileSpec (recorded r) (NewContext eventCtx (WithValues (Logger r))) obj (w0, []) =
            ((specResult, specErr), (w1, t)) \<and>
          (\<forall>e. Call_Status e \<notin> set t)"
proof -
  define ctx where "ctx = NewContext eventCtx (WithValues (Logger r))"
  obtain t where t: "reconcileSpec (recorded r) ctx obj (w0, []) = ((specResult, specErr), (w1, t))"
    and nt: "\<forall>e. Call_Status e \<notin> set t"
    using reconcileSpec_recorded_same [of r ctx obj w0 "[]"] assms(4) by (auto simp add: ctx_def)
  have get: "Client_Get (recorded r) ctx req (w, []) = (Inr obj, (w0, []))"
    using assms(1) by (simp add: recorded_simps ctx_def)
  obtain j where dump:
    "(if Enabled (Logger (recorded r)) 1 then MarshalIndent (recorded r) obj else Inr []) = Inr j"
    using assms(3) by (cases "Enabled (Logger r) 1") (simp_all add: recorded_simps)
  have st: "status_step (recorded r) ctx obj specErr (w1, t) =
      ((statusResult, statusErr), (w2, t @ [Call_Status specErr]))"
    using assms(5) by (simp add: recorded_simps ctx_def)
  have lg: "NewContext eventCtx (WithValues (Logger (recorded r))) = ctx"
    by (simp add: recorded_simps ctx_def)
  have "Reconcile (recorded r) eventCtx req (w, []) =
           ((if specErr \<noteq> None then (empty_Result, specErr)
             else if statusErr \<noteq> None then (empty_Result, statusErr)
             else if Requeue specResult then (specResult, None)
             else if Requeue statusResult then (statusResult, None)
             else (empty_Result, None)),
            (w2, t @ [Call_Status specErr]))"
    unfolding Reconcile_def Let_def lg get
    using dump assms(2) t st by (simp add: WithValues_def)
  with nt t show ?thesis unfolding ctx_def by blast
qed

theorem Reconcile_precedence_witness:
  "Enabled (Logger (demo_reconciler True (Inr ''{}'') None (Some (Failure ''pvc: forbidden'')) (empty_Result, None)
      None None (\<lparr>Requeue = True, RequeueAfter = 0\<rparr>, Some (Failure ''status: conflict'')))) 1 \<and>
   DeletionTimestamp demo_Limitador = None \<and>
   (\<exists>t. Reconcile
      (recorded (demo_reconciler True (Inr ''{}'') None (Some (Failure ''pvc: forbidden'')) (empty_Result, None)
         None None (\<lparr>Requeue = True, RequeueAfter = 0\<rparr>, Some (Failure ''status: conflict''))))
      demo_Context (''default'', ''limitador'') (0, []) =
    ((empty_Result, Some (Failure ''pvc: forbidden'')),
     (3, t @ [Call_Status (Some (Failure ''pvc: forbidden''))])) \<and>
    t = [Call_Service, Call_PVC])"
  using Reconcile_precedence [of
      "demo_reconciler True (Inr ''{}'') None (Some (Failure ''pvc: forbidden'')) (empty_Result, None)
         None None (\<lparr>Requeue = True, RequeueAfter = 0\<rparr>, Some (Failure ''status: conflict''))"
      demo_Context "(''default'', ''limitador'')" 0 demo_Limitador 0 "''{}''"
      empty_Result "Some (Failure ''pvc: forbidden'')" 2
      "\<lparr>Requeue = True, RequeueAfter = 0\<rparr>" "Some (Failure ''status: conflict'')" 3]
  by (simp add: demo_reconciler_def demo_Limitador_def reconcileSpec_def recorded_simps)

section \<open>Properties of reconcilePdb\<close>

lemma recorded_pdb_simps:
  "GetResource (recorded_pdb r) ctx key (w, cs) =
     (case GetResource r ctx key w of (a, w') \<Rightarrow> (a, (w', cs @ [Call_GetResource key])))"
  "DeleteResource (recorded_pdb r) ctx pdb (w, cs) =
     (case DeleteResource r ctx pdb w of (a, w') \<Rightarrow> (a, (w', cs @ [Call_DeleteResource pdb])))"
  "PodDisruptionBudgetName (recorded_pdb r) = PodDisruptionBudgetName r"
  by (simp_all add: recorded_pdb_def recording_pdb_def)

lemma FromContext_NewContext: "FromContext (NewContext ctx l) = Inr l"
  by (simp add: FromContext_def NewContext_def)

text \<open>
  C6. For a declaration without a disruption-budget policy, under a context that carries
  a logger (as the one \<open>Reconcile\<close> makes does), \<open>reconcilePdb\<close> looks the budget
  up under the declaration's namespace and the derived name, and that is its first call.
  A not-found result of the lookup is success; any other error of the lookup is returned.
  A budget that is found and has no deletion timestamp is deleted, and the result is the
  result of the deletion; a budget that already has a deletion timestamp is left alone, no
  deletion is called, and the result is success.
\<close>

theorem reconcilePdb_absent_policy:
  assumes "Spec_PodDisruptionBudget (Spec obj) = None"
    and "key = (Namespace obj, PodDisruptionBudgetName r obj)"
    and "GetResource r (NewContext eventCtx logger) key w = (found, w1)"
  shows "reconcilePdb (recorded_pdb r) (NewContext eventCtx logger) obj (w, []) =
     (case found of
        Inl err \<Rightarrow> (if IsNotFound err then None else Some err, (w1, [Call_GetResource key]))
      | Inr pdb \<Rightarrow>
          if DeletionTimestamp pdb = None then
            (fst (DeleteResource r (NewContext eventCtx logger) pdb w1),
             (snd (DeleteResource r (NewContext eventCtx logger) pdb w1),
              [Call_GetResource key, Call_DeleteResource pdb]))
          else (None, (w1, [Call_GetResource key])))"
  using assms
  by (cases found)
    (auto simp add: reconcilePdb_def FromContext_NewContext recorded_pdb_simps
      split: prod.splits option.splits)

theorem reconcilePdb_absent_policy_witness:
  "fst (reconcilePdb (recorded_pdb demo_PdbCollaborators) (NewContext demo_Context demo_Logger)
      demo_Limitador ([(''default'', ''limitador'') \<mapsto> demo_pdb None], [])) = None \<and>
   snd (snd (reconcilePdb (recorded_pdb demo_PdbCollaborators) (NewContext demo_Context demo_Logger)
      demo_Limitador ([(''default'', ''limitador'') \<mapsto> demo_pdb None], []))) =
     [Call_GetResource (''default'', ''limitador''), Call_DeleteResource (demo_pdb None)] \<and>
   fst (reconcilePdb (recorded_pdb demo_PdbCollaborators) (NewContext demo_Context demo_Logger)
      demo_Limitador ([(''default'', ''limitador'') \<mapsto> demo_pdb (Some 7)], [])) = None \<and>
   snd (snd (reconcilePdb (recorded_pdb demo_PdbCollaborators) (NewContext demo_Context demo_Logger)
      demo_Limitador ([(''default'', ''limitador'') \<mapsto> demo_pdb (Some 7)], []))) =
     [Call_GetResource (''default'', ''limitador'')] \<and>
   reconcilePdb (recorded_pdb demo_PdbCollaborators) (NewContext demo_Context demo_Logger)
      demo_Limitador (Map.empty, []) =
     (None, (Map.empty, [Call_GetResource (''default'', ''limitador'')]))"
  using
    reconcilePdb_absent_policy [of demo_Limitador "(''default'', ''limitador'')" demo_PdbCollaborators
      demo_Context demo_Logger "[(''default'', ''limitador'') \<mapsto> demo_pdb None]"
      "Inr (demo_pdb None)" "[(''default'', ''limitador'') \<mapsto> demo_pdb None]"]
    reconcilePdb_absent_policy [of demo_Limitador "(''default'', ''limitador'')" demo_PdbCollaborators
      demo_Context demo_Logger "[(''default'', ''limitador'') \<mapsto> demo_pdb (Some 7)]"
      "Inr (demo_pdb (Some 7))" "[(''default'', ''limitador'') \<mapsto> demo_pdb (Some 7)]"]
    reconcilePdb_absent_policy [of demo_Limitador "(''default'', ''limitador'')" demo_PdbCollaborators
      demo_Context demo_Logger "Map.empty"
      "Inl (NotFound ''limitador'')" "Map.empty"]
  by (simp add: demo_Limitador_def demo_PdbCollaborators_def demo_pdb_def)

section \<open>Properties of getDeploymentStorageOptions\<close>

text \<open>
  C2. \<open>getDeploymentStorageOptions\<close> takes the first branch, in the order redis,
  redis-cached, disk, whose field is not nil, whatever the later fields hold (so redis
  wins when several are set), and the in-memory options when the storage field is nil or
  all three fields are nil.
\<close>

theorem storage_priority:
  "getDeploymentStorageOptions r ctx limObj =
     options_of_backend r ctx limObj (selected_backend limObj) \<and>
   (Spec_Storage (Spec limObj) = None \<longrightarrow>
      getDeploymentStorageOptions r ctx limObj = limitador_InMemoryDeploymentOptions r) \<and>
   (\<forall>storage. Spec_Storage (Spec limObj) = Some storage \<longrightarrow>
      getDeploymentStorageOptions r ctx limObj =
        (case Storage_Redis storage of
           Some redis \<Rightarrow>
             limitador_RedisDeploymentOptions r ctx (Client r) (Namespace limObj) redis
         | None \<Rightarrow>
        (case Storage_RedisCached storage of
           Some redisCached \<Rightarrow>
             limitador_RedisCachedDeploymentOptions r ctx (Client r) (Namespace limObj) redisCached
         | None \<Rightarrow>
        (case Storage_Disk storage of
           Some disk \<Rightarrow> limitador_DiskDeploymentOptions r limObj disk
         | None \<Rightarrow> limitador_InMemoryDeploymentOptions r))))"
  by (simp add: getDeploymentStorageOptions_def options_of_backend_def selected_backend_def
      priority_order_def split: option.splits)

theorem storage_priority_witness:
  "getDeploymentStorageOptions demo_Builders demo_Context (demo_with_Storage (Some demo_Storage)) =
     Inr ''redis'' \<and>
   selected_backend (demo_with_Storage (Some demo_Storage)) =
     Some (Backend_Redis \<lparr>Redis_ConfigSecretRef = Some demo_secretRef\<rparr>) \<and>
   getDeploymentStorageOptions demo_Builders demo_Context
     (demo_with_Storage (Some (demo_Storage\<lparr>Storage_Redis := None\<rparr>))) = Inr ''redis_cached'' \<and>
   getDeploymentStorageOptions demo_Builders demo_Context
     (demo_with_Storage (Some (demo_Storage\<lparr>Storage_Redis := None, Storage_RedisCached := None\<rparr>))) =
     Inr ''disk'' \<and>
   getDeploymentStorageOptions demo_Builders demo_Context
     (demo_with_Storage (Some \<lparr>Storage_Redis = None, Storage_RedisCached = None, Storage_Disk = None\<rparr>)) =
     Inr ''memory'' \<and>
   getDeploymentStorageOptions demo_Builders demo_Context (demo_with_Storage None) = Inr ''memory''"
  using storage_priority [of demo_Builders demo_Context "demo_with_Storage (Some demo_Storage)"]
    storage_priority [of demo_Builders demo_Context
      "demo_with_Storage (Some (demo_Storage\<lparr>Storage_Redis := None\<rparr>))"]
    storage_priority [of demo_Builders demo_Context
      "demo_with_Storage (Some (demo_Storage\<lparr>Storage_Redis := None, Storage_RedisCached := None\<rparr>))"]
    storage_priority [of demo_Builders demo_Context
      "demo_with_Storage (Some \<lparr>Storage_Redis = None, Storage_RedisCached = None, Storage_Disk = None\<rparr>)"]
    storage_priority [of demo_Builders demo_Context "demo_with_Storage None"]
  by (simp add: demo_with_Storage_def demo_Storage_def demo_Builders_def demo_Limitador_def
      selected_backend_def priority_order_def options_of_backend_def)

section \<open>Properties of the redis option builders\<close>

lemma digit_char_in: "d < 10 \<Longrightarrow> digit_char d \<in> set ''0123456789''"
  unfolding digit_char_def by (rule nth_mem) simp

lemma digits_chars: "set (digits n) \<subseteq> set ''0123456789''"
proof (induction n rule: digits.induct)
  case (1 n)
  show ?case
  proof (cases "n < 10")
    case True
    then show ?thesis using digit_char_in [of n] by (subst digits.simps) simp
  next
    case False
    have "n mod 10 < 10" by simp
    then have "digit_char (n mod 10) \<in> set ''0123456789''" by (rule digit_char_in)
    with False 1 show ?thesis by (subst digits.simps) simp
  qed
qed


lemma Itoa_chars: "set (Itoa i) \<subseteq> set ''-0123456789''"
proof (cases "i < 0")
  case True
  have "set (digits (nat (- i))) \<subseteq> set ''-0123456789''"
    using digits_chars [of "nat (- i)"] by (rule subset_trans) (simp add: subset_iff)
  with True show ?thesis by (simp add: Itoa_def)
next
  case False
  have "set (digits (nat i)) \<subseteq> set ''-0123456789''"
    using digits_chars [of "nat i"] by (rule subset_trans) (simp add: subset_iff)
  with False show ?thesis by (simp add: Itoa_def)
qed

lemma Itoa_not_word: "c \<in> set w \<Longrightarrow> c \<notin> set ''-0123456789'' \<Longrightarrow> Itoa i \<noteq> w"
  using Itoa_chars [of i] by blast

lemma Itoa_not_flag:
  "Itoa i \<noteq> ''--ttl''" "Itoa i \<noteq> ''--ratio''" "Itoa i \<noteq> ''--flush-period''" "Itoa i \<noteq> ''--max-cached''"
proof -
  show "Itoa i \<noteq> ''--ttl''" by (rule Itoa_not_word [of "CHR ''t''"]) simp_all
  show "Itoa i \<noteq> ''--ratio''" by (rule Itoa_not_word [of "CHR ''r''"]) simp_all
  show "Itoa i \<noteq> ''--flush-period''" by (rule Itoa_not_word [of "CHR ''f''"]) simp_all
  show "Itoa i \<noteq> ''--max-cached''" by (rule Itoa_not_word [of "CHR ''m''"]) simp_all
qed

lemma flag_pair_mem:
  "f \<in> set (flag_pair g v) \<longleftrightarrow> (\<exists>i. v = Some i \<and> (f = g \<or> f = Itoa i))"
  by (cases v) (auto simp add: flag_pair_def)

lemma flag_present_iff:
  "''--ttl'' \<in> set (option_flags (Some o1)) \<longleftrightarrow> TTL o1 \<noteq> None"
  "''--ratio'' \<in> set (option_flags (Some o1)) \<longleftrightarrow> Ratio o1 \<noteq> None"
  "''--flush-period'' \<in> set (option_flags (Some o1)) \<longleftrightarrow> FlushPeriod o1 \<noteq> None"
  "''--max-cached'' \<in> set (option_flags (Some o1)) \<longleftrightarrow> MaxCached o1 \<noteq> None"
  using Itoa_not_flag [symmetric]
  by (simp_all add: option_flags_def flag_pair_mem)

lemma cached_command_general:
  assumes "RedisCached_ConfigSecretRef redisCachedObj = Some secretRef"
    and "cl ns secretRef = Inr secret"
    and "Secret_Data secret ''URL'' = Some url"
  shows "RedisCachedDeploymentOptions ctx cl ns redisCachedObj =
     Inr \<lparr>Command = [''redis_cached'', ''$(LIMITADOR_OPERATOR_REDIS_URL)''] @
                     option_flags (Options redisCachedObj),
          Volumes = [], VolumeMounts = [], DeploymentStrategy = Strategy_unset\<rparr>"
  using assms
  by (simp add: RedisCachedDeploymentOptions_def validateRedisSecret_def option_flags_def
      flag_pair_def Let_def split: option.splits)

lemma Itoa_small: "Itoa 1 = ''1''" "Itoa 2 = ''2''" "Itoa 3 = ''3''" "Itoa 4 = ''4''"
  by (simp_all add: Itoa_def digits.simps digit_char_def)

text \<open>
  C3. For a redis-cached declaration whose secret reference names a secret that is found
  and holds the \<open>URL\<close> field, the command is \<open>redis_cached\<close>, the URL variable, and
  then the flag pairs of the options that are set, in the order ttl, ratio, flush-period,
  max-cached: with no options exactly the two arguments; with ttl=1, ratio=2,
  flushPeriod=3, maxCached=4 exactly the ten arguments of the test; and a flag is among
  the arguments only when its option is set.
\<close>

theorem redis_cached_command:
  assumes "RedisCached_ConfigSecretRef redisCachedObj = Some secretRef"
    and "cl ns secretRef = Inr secret"
    and "Secret_Data secret ''URL'' = Some url"
  shows "RedisCachedDeploymentOptions ctx cl ns redisCachedObj =
       Inr \<lparr>Command = [''redis_cached'', ''$(LIMITADOR_OPERATOR_REDIS_URL)''] @
                       option_flags (Options redisCachedObj),
            Volumes = [], VolumeMounts = [], DeploymentStrategy = Strategy_unset\<rparr> \<and>
     (Options redisCachedObj = None \<longrightarrow>
        RedisCachedDeploymentOptions ctx cl ns redisCachedObj =
          Inr \<lparr>Command = [''redis_cached'', ''$(LIMITADOR_OPERATOR_REDIS_URL)''],
               Volumes = [], VolumeMounts = [], DeploymentStrategy = Strategy_unset\<rparr>) \<and>
     (Options redisCachedObj =
        Some \<lparr>TTL = Some 1, Ratio = Some 2, FlushPeriod = Some 3, MaxCached = Some 4\<rparr> \<longrightarrow>
        RedisCachedDeploymentOptions ctx cl ns redisCachedObj =
          Inr \<lparr>Command =
                 [''redis_cached'', ''$(LIMITADOR_OPERATOR_REDIS_URL)'', ''--ttl'', ''1'',
                  ''--ratio'', ''2'', ''--flush-period'', ''3'', ''--max-cached'', ''4''],
               Volumes = [], VolumeMounts = [], DeploymentStrategy = Strategy_unset\<rparr>) \<and>
     (\<forall>o1. Options redisCachedObj = Some o1 \<longrightarrow>
        (''--ttl'' \<in> set (option_flags (Some o1)) \<longleftrightarrow> TTL o1 \<noteq> None) \<and>
        (''--ratio'' \<in> set (option_flags (Some o1)) \<longleftrightarrow> Ratio o1 \<noteq> None) \<and>
        (''--flush-period'' \<in> set (option_flags (Some o1)) \<longleftrightarrow> FlushPeriod o1 \<noteq> None) \<and>
        (''--max-cached'' \<in> set (option_flags (Some o1)) \<longleftrightarrow> MaxCached o1 \<noteq> None))"
proof -
  have general: "RedisCachedDeploymentOptions ctx cl ns redisCachedObj =
       Inr \<lparr>Command = [''redis_cached'', ''$(LIMITADOR_OPERATOR_REDIS_URL)''] @
                       option_flags (Options redisCachedObj),
            Volumes = [], VolumeMounts = [], DeploymentStrategy = Strategy_unset\<rparr>"
    using assms by (rule cached_command_general)
  have none: "option_flags None = []"
    by (simp add: option_flags_def)
  have all: "option_flags (Some \<lparr>TTL = Some 1, Ratio = Some 2, FlushPeriod = Some 3, MaxCached = Some 4\<rparr>) =
      [''--ttl'', ''1'', ''--ratio'', ''2'', ''--flush-period'', ''3'', ''--max-cached'', ''4'']"
    by (simp add: option_flags_def flag_pair_def Itoa_small)
  show ?thesis
    using general none all by (simp add: flag_present_iff)
qed

theorem redis_cached_command_witness:
  "RedisCachedDeploymentOptions demo_Context
     (demo_SecretClient [demo_Secret [''URL'' \<mapsto> ''redis://example.com:6379'']]) ''some-ns''
     \<lparr>RedisCached_ConfigSecretRef = Some demo_secretRef,
      Options = Some \<lparr>TTL = Some 1, Ratio = Some 2, FlushPeriod = Some 3, MaxCached = Some 4\<rparr>\<rparr> =
   Inr \<lparr>Command =
          [''redis_cached'', ''$(LIMITADOR_OPERATOR_REDIS_URL)'', ''--ttl'', ''1'', ''--ratio'', ''2'',
           ''--flush-period'', ''3'', ''--max-cached'', ''4''],
        Volumes = [], VolumeMounts = [], DeploymentStrategy = Strategy_unset\<rparr> \<and>
   RedisCachedDeploymentOptions demo_Context
     (demo_SecretClient [demo_Secret [''URL'' \<mapsto> ''redis://example.com:6379'']]) ''some-ns''
     \<lparr>RedisCached_ConfigSecretRef = Some demo_secretRef,
      Options = Some \<lparr>TTL = None, Ratio = Some 20, FlushPeriod = None, MaxCached = Some (- 5)\<rparr>\<rparr> =
   Inr \<lparr>Command =
          [''redis_cached'', ''$(LIMITADOR_OPERATOR_REDIS_URL)'', ''--ratio'', ''20'',
           ''--max-cached'', ''-5''],
        Volumes = [], VolumeMounts = [], DeploymentStrategy = Strategy_unset\<rparr>"
  using redis_cached_command [of
      "\<lparr>RedisCached_ConfigSecretRef = Some demo_secretRef,
        Options = Some \<lparr>TTL = Some 1, Ratio = Some 2, FlushPeriod = Some 3, MaxCached = Some 4\<rparr>\<rparr>"
      demo_secretRef "demo_SecretClient [demo_Secret [''URL'' \<mapsto> ''redis://example.com:6379'']]"
      "''some-ns''" "demo_Secret [''URL'' \<mapsto> ''redis://example.com:6379'']"
      "''redis://example.com:6379''" demo_Context]
    redis_cached_command [of
      "\<lparr>RedisCached_ConfigSecretRef = Some demo_secretRef,
        Options = Some \<lparr>TTL = None, Ratio = Some 20, FlushPeriod = None, MaxCached = Some (- 5)\<rparr>\<rparr>"
      demo_secretRef "demo_SecretClient [demo_Secret [''URL'' \<mapsto> ''redis://example.com:6379'']]"
      "''some-ns''" "demo_Secret [''URL'' \<mapsto> ''redis://example.com:6379'']"
      "''redis://example.com:6379''" demo_Context]
  by (simp add: demo_SecretClient_def demo_Secret_def demo_secretRef_def option_flags_def
      flag_pair_def Itoa_def digits.simps digit_char_def)

text \<open>
  C4. The redis and the redis-cached builder fail, and return no options, in three cases:
  without a secret reference, with a configuration error; when the secret cannot be
  fetched, with the error of the fetch as it is (the not-found error included); and when
  the fetched secret has no \<open>URL\<close> key, with a configuration error.
\<close>

theorem redis_secret_failures:
  "(Redis_ConfigSecretRef redisObj = None \<longrightarrow>
      RedisDeploymentOptions ctx cl ns redisObj =
        Inl (ConfigurationError ''there's no ConfigSecretRef set'')) \<and>
   (RedisCached_ConfigSecretRef redisCachedObj = None \<longrightarrow>
      RedisCachedDeploymentOptions ctx cl ns redisCachedObj =
        Inl (ConfigurationError ''there's no ConfigSecretRef set'')) \<and>
   (\<forall>secretRef err. cl ns secretRef = Inl err \<longrightarrow>
      (Redis_ConfigSecretRef redisObj = Some secretRef \<longrightarrow>
         RedisDeploymentOptions ctx cl ns redisObj = Inl err) \<and>
      (RedisCached_ConfigSecretRef redisCachedObj = Some secretRef \<longrightarrow>
         RedisCachedDeploymentOptions ctx cl ns redisCachedObj = Inl err)) \<and>
   (\<forall>secretRef secret. cl ns secretRef = Inr secret \<and> Secret_Data secret ''URL'' = None \<longrightarrow>
      (Redis_ConfigSecretRef redisObj = Some secretRef \<longrightarrow>
         RedisDeploymentOptions ctx cl ns redisObj =
           Inl (ConfigurationError ''the storage config Secret doesn't have the `URL` field'')) \<and>
      (RedisCached_ConfigSecretRef redisCachedObj = Some secretRef \<longrightarrow>
         RedisCachedDeploymentOptions ctx cl ns redisCachedObj =
           Inl (ConfigurationError ''the storage config Secret doesn't have the `URL` field'')))"
  by (auto simp add: RedisDeploymentOptions_def RedisCachedDeploymentOptions_def
      validateRedisSecret_def)

theorem redis_secret_failures_witness:
  "RedisCachedDeploymentOptions demo_Context (demo_SecretClient []) ''some-ns''
     \<lparr>RedisCached_ConfigSecretRef = None, Options = None\<rparr> =
     Inl (ConfigurationError ''there's no ConfigSecretRef set'') \<and>
   RedisCachedDeploymentOptions demo_Context (demo_SecretClient []) ''some-ns''
     \<lparr>RedisCached_ConfigSecretRef = Some \<lparr>ref_Name = ''notexisting'', ref_Namespace = ''some-ns''\<rparr>,
      Options = None\<rparr> = Inl (NotFound ''notexisting'') \<and>
   RedisCachedDeploymentOptions demo_Context (demo_SecretClient [demo_Secret Map.empty]) ''some-ns''
     \<lparr>RedisCached_ConfigSecretRef = Some demo_secretRef, Options = None\<rparr> =
     Inl (ConfigurationError ''the storage config Secret doesn't have the `URL` field'') \<and>
   RedisDeploymentOptions demo_Context (demo_SecretClient [demo_Secret Map.empty]) ''some-ns''
     \<lparr>Redis_ConfigSecretRef = Some demo_secretRef\<rparr> =
     Inl (ConfigurationError ''the storage config Secret doesn't have the `URL` field'')"
  using redis_secret_failures [of "\<lparr>Redis_ConfigSecretRef = None\<rparr>" demo_Context
      "demo_SecretClient []" "''some-ns''" "\<lparr>RedisCached_ConfigSecretRef = None, Options = None\<rparr>"]
    redis_secret_failures [of "\<lparr>Redis_ConfigSecretRef = None\<rparr>" demo_Context
      "demo_SecretClient []" "''some-ns''"
      "\<lparr>RedisCached_ConfigSecretRef = Some \<lparr>ref_Name = ''notexisting'', ref_Namespace = ''some-ns''\<rparr>,
        Options = None\<rparr>"]
    redis_secret_failures [of "\<lparr>Redis_ConfigSecretRef = Some demo_secretRef\<rparr>" demo_Context
      "demo_SecretClient [demo_Secret Map.empty]" "''some-ns''"
      "\<lparr>RedisCached_ConfigSecretRef = Some demo_secretRef, Options = None\<rparr>"]
  by (simp add: demo_SecretClient_def demo_Secret_def demo_secretRef_def)

section \<open>Properties of mutateLimitsConfigMap and reconcileLimitsConfigMap\<close>

text \<open>
  What the mutator does when the desired payload deserializes: it compares the desired
  list with the existing one, an existing payload that fails to deserialize counting as
  the nil list; when they differ it assigns the desired payload, which panics on a nil
  data map; when they are equal it reports no change.
\<close>

lemma mutate_outcome:
  assumes "Unmarshal (map_index (Data desired) k) = Inr desiredLimits"
    and "existingLimits =
           (case Unmarshal (map_index (Data existing) k) of Inl err \<Rightarrow> None | Inr limits \<Rightarrow> limits)"
  shows "mutateLimitsConfigMap Unmarshal k (ConfigMap_Object existing) (ConfigMap_Object desired) =
       (if desiredLimits \<noteq> existingLimits then
          (case Data existing of
             None \<Rightarrow> Panic ''assignment to entry in nil map''
           | Some m \<Rightarrow>
               Return ((True, None),
                 ConfigMap_Object (existing\<lparr>Data := Some (m(k \<mapsto> map_index (Data desired) k))\<rparr>)))
        else Return ((False, None), ConfigMap_Object existing))"
  using assms by (simp add: mutateLimitsConfigMap_def DeepEqual_def Let_def)

text \<open>
  C5. The mutator does not always enforce the desired content over an existing payload
  that fails to deserialize, though lines 315 and 316 say it will: with the existing payload
  \<open>{\<close> and the desired payload \<open>null\<close>, which deserializes to the nil list, it
  reports no change and leaves \<open>{\<close> in place. And where the lists differ it does not
  always overwrite: on an existing ConfigMap whose data map is nil, with the desired
  payload \<open>[]\<close>, the assignment panics.
\<close>

theorem mutate_unparsable_existing_kept:
  "demo_Unmarshal ''{'' = (Inl (Failure ''yaml: cannot unmarshal'') :: error + nat list option) \<and>
   demo_Unmarshal ''null'' = (Inr None :: error + nat list option) \<and>
   mutateLimitsConfigMap (demo_Unmarshal :: string \<Rightarrow> error + nat list option)
     ''limitador-config.yaml''
     (ConfigMap_Object (demo_ConfigMap_of ''{''))
     (ConfigMap_Object (demo_ConfigMap_of ''null'')) =
   Return ((False, None), ConfigMap_Object (demo_ConfigMap_of ''{'')) \<and>
   mutateLimitsConfigMap (demo_Unmarshal :: string \<Rightarrow> error + nat list option)
     ''limitador-config.yaml''
     (ConfigMap_Object (demo_ConfigMap None))
     (ConfigMap_Object (demo_ConfigMap_of ''[]'')) =
   Panic ''assignment to entry in nil map''"
  by (simp add: mutateLimitsConfigMap_def demo_Unmarshal_def demo_ConfigMap_of_def
      demo_ConfigMap_def map_index_def DeepEqual_def)

lemma mutateFn_parse_error:
  "Unmarshal (map_index (Data desired) k) = Inl err \<Longrightarrow>
   mutateLimitsConfigMap Unmarshal k (ConfigMap_Object existing) (ConfigMap_Object desired) =
     Return ((False, Some err), ConfigMap_Object existing)"
  by (simp add: mutateLimitsConfigMap_def)

lemma reconcileLimitsConfigMap_parse_error:
  assumes "LimitsConfigMap cm obj = Inr limitsConfigMap"
    and "cm_SetOwnerReference cm obj limitsConfigMap = Inr desired"
    and "cm_Get cm (NewContext eventCtx logger) (Namespace desired, Name desired) w = (Inr existing, w1)"
    and "yaml_Unmarshal cm (map_index (Data desired) (LimitadorConfigFileName cm)) = Inl err"
  shows "reconcileLimitsConfigMap cm (NewContext eventCtx logger) obj w = Return (Some err, w1)"
  using assms
  by (simp add: reconcileLimitsConfigMap_def ReconcileConfigMap_def FromContext_NewContext
      mutateFn_parse_error)

lemma reconcileSpec_configmap_error:
  assumes "service_step r ctx obj w = (None, w1)"
    and "pvc_step r ctx obj w1 = (None, w2)"
    and "deployment_step r ctx obj w2 = ((result, None), w3)"
    and "\<not> Requeue result"
    and "configmap_step r ctx obj w3 = (Some err, w4)"
  shows "reconcileSpec r ctx obj w = ((empty_Result, Some err), w4)"
  using assms by (simp add: reconcileSpec_def)

lemma Reconcile_spec_error:
  assumes "Client_Get r (NewContext eventCtx (WithValues (Logger r))) req w = (Inr obj, w0)"
    and "DeletionTimestamp obj = None"
    and "Enabled (Logger r) 1 \<longrightarrow> MarshalIndent r obj = Inr jsonData"
    and "reconcileSpec r (NewContext eventCtx (WithValues (Logger r))) obj w0 =
           ((specResult, Some err), w1)"
    and "status_step r (NewContext eventCtx (WithValues (Logger r))) obj (Some err) w1 = (st, w2)"
  shows "Reconcile r eventCtx req w = ((empty_Result, Some err), w2)"
proof -
  obtain j where dump:
    "(if Enabled (WithValues (Logger r)) 1 then MarshalIndent r obj else Inr []) = Inr j"
    using assms(3) by (cases "Enabled (Logger r) 1") (simp_all add: WithValues_def)
  show ?thesis
    unfolding Reconcile_def Let_def assms(1)
    using dump assms(2,4,5) by (cases st) (simp add: split_beta)
qed

text \<open>
  C9. When the desired payload fails to deserialize, the mutator returns that error,
  reports no change and leaves the existing ConfigMap as it was. A failure to deserialize
  the existing payload is not returned: with a desired payload that deserializes, the
  outcome is then no change when the desired list is nil, and otherwise the overwrite
  (which panics on a nil data map), never an error. And the error of the desired payload
  fails the pass: when the ConfigMap that \<open>reconcileLimitsConfigMap\<close> builds has a
  payload that fails to deserialize and the cluster holds a ConfigMap of that name,
  \<open>reconcileLimitsConfigMap\<close> returns that error, and in a pass whose ConfigMap step is
  that method and whose earlier steps succeeded without a requeue, \<open>reconcileSpec\<close>
  and \<open>Reconcile\<close> return it.
\<close>

theorem mutate_desired_parse_error:
  "(Unmarshal (map_index (Data desired) k) = Inl err \<longrightarrow>
      mutateLimitsConfigMap Unmarshal k (ConfigMap_Object existing) (ConfigMap_Object desired) =
        Return ((False, Some err), ConfigMap_Object existing)) \<and>
   (Unmarshal (map_index (Data desired) k) = Inr desiredLimits \<and>
    Unmarshal (map_index (Data existing) k) = Inl existingErr \<longrightarrow>
      mutateLimitsConfigMap Unmarshal k (ConfigMap_Object existing) (ConfigMap_Object desired) =
        (if desiredLimits = None then Return ((False, None), ConfigMap_Object existing)
         else case Data existing of
           None \<Rightarrow> Panic ''assignment to entry in nil map''
         | Some m \<Rightarrow>
             Return ((True, None),
               ConfigMap_Object (existing\<lparr>Data := Some (m(k \<mapsto> map_index (Data desired) k))\<rparr>)))) \<and>
   (let ctx = NewContext eventCtx (WithValues (Logger r)) in
    Client_Get r ctx req w = (Inr obj, w0) \<and>
    DeletionTimestamp obj = None \<and>
    (Enabled (Logger r) 1 \<longrightarrow> MarshalIndent r obj = Inr jsonData) \<and>
    service_step r ctx obj w0 = (None, w1) \<and>
    pvc_step r ctx obj w1 = (None, w2) \<and>
    deployment_step r ctx obj w2 = ((result, None), w3) \<and>
    \<not> Requeue result \<and>
    reconcileLimitsConfigMap cm ctx obj w3 = Return (configmap_step r ctx obj w3) \<and>
    LimitsConfigMap cm obj = Inr limitsConfigMap \<and>
    cm_SetOwnerReference cm obj limitsConfigMap = Inr builtDesired \<and>
    cm_Get cm ctx (Namespace builtDesired, Name builtDesired) w3 = (Inr found, w4) \<and>
    yaml_Unmarshal cm (map_index (Data builtDesired) (LimitadorConfigFileName cm)) = Inl parseErr \<and>
    status_step r ctx obj (Some parseErr) w4 = (statusOutcome, w5) \<longrightarrow>
      reconcileLimitsConfigMap cm ctx obj w3 = Return (Some parseErr, w4) \<and>
      reconcileSpec r ctx obj w0 = ((empty_Result, Some parseErr), w4) \<and>
      Reconcile r eventCtx req w = ((empty_Result, Some parseErr), w5))"
proof -
  have a: "Unmarshal (map_index (Data desired) k) = Inl err \<longrightarrow>
      mutateLimitsConfigMap Unmarshal k (ConfigMap_Object existing) (ConfigMap_Object desired) =
        Return ((False, Some err), ConfigMap_Object existing)"
    by (simp add: mutateFn_parse_error)
  have b: "Unmarshal (map_index (Data desired) k) = Inr desiredLimits \<and>
    Unmarshal (map_index (Data existing) k) = Inl existingErr \<longrightarrow>
      mutateLimitsConfigMap Unmarshal k (ConfigMap_Object existing) (ConfigMap_Object desired) =
        (if desiredLimits = None then Return ((False, None), ConfigMap_Object existing)
         else case Data existing of
           None \<Rightarrow> Panic ''assignment to entry in nil map''
         | Some m \<Rightarrow>
             Return ((True, None),
               ConfigMap_Object (existing\<lparr>Data := Some (m(k \<mapsto> map_index (Data desired) k))\<rparr>)))"
    by (simp add: mutateLimitsConfigMap_def DeepEqual_def Let_def)
  have c: "reconcileLimitsConfigMap cm ctx obj w3 = Return (Some parseErr, w4) \<and>
      reconcileSpec r ctx obj w0 = ((empty_Result, Some parseErr), w4) \<and>
      Reconcile r eventCtx req w = ((empty_Result, Some parseErr), w5)"
    if ctx: "ctx = NewContext eventCtx (WithValues (Logger r))"
      and get: "Client_Get r ctx req w = (Inr obj, w0)"
      and live: "DeletionTimestamp obj = None"
      and dump: "Enabled (Logger r) 1 \<longrightarrow> MarshalIndent r obj = Inr jsonData"
      and svc: "service_step r ctx obj w0 = (None, w1)"
      and pvc: "pvc_step r ctx obj w1 = (None, w2)"
      and dep: "deployment_step r ctx obj w2 = ((result, None), w3)"
      and noreq: "\<not> Requeue result"
      and step: "reconcileLimitsConfigMap cm ctx obj w3 = Return (configmap_step r ctx obj w3)"
      and built: "LimitsConfigMap cm obj = Inr limitsConfigMap"
      and owner: "cm_SetOwnerReference cm obj limitsConfigMap = Inr builtDesired"
      and found: "cm_Get cm ctx (Namespace builtDesired, Name builtDesired) w3 = (Inr found, w4)"
      and parse: "yaml_Unmarshal cm (map_index (Data builtDesired) (LimitadorConfigFileName cm)) = Inl parseErr"
      and status: "status_step r ctx obj (Some parseErr) w4 = (statusOutcome, w5)"
    for ctx
  proof -
    have m: "reconcileLimitsConfigMap cm ctx obj w3 = Return (Some parseErr, w4)"
      unfolding ctx
      by (rule reconcileLimitsConfigMap_parse_error [OF built owner found [unfolded ctx] parse])
    with step have cs: "configmap_step r ctx obj w3 = (Some parseErr, w4)"
      by simp
    have sp: "reconcileSpec r ctx obj w0 = ((empty_Result, Some parseErr), w4)"
      by (rule reconcileSpec_configmap_error [OF svc pvc dep noreq cs])
    have "Reconcile r eventCtx req w = ((empty_Result, Some parseErr), w5)"
      by (rule Reconcile_spec_error [OF get [unfolded ctx] live dump sp [unfolded ctx]
            status [unfolded ctx]])
    with m sp show ?thesis by simp
  qed
  show ?thesis
    using a b c [OF refl] unfolding Let_def by blast
qed

theorem mutate_desired_parse_error_witness:
  "mutateLimitsConfigMap (demo_Unmarshal :: string \<Rightarrow> error + nat list option)
     ''limitador-config.yaml''
     (ConfigMap_Object (demo_ConfigMap_of ''[]'')) (ConfigMap_Object (demo_ConfigMap_of ''{'')) =
   Return ((False, Some (Failure ''yaml: cannot unmarshal'')),
     ConfigMap_Object (demo_ConfigMap_of ''[]'')) \<and>
   mutateLimitsConfigMap (demo_Unmarshal :: string \<Rightarrow> error + nat list option)
     ''limitador-config.yaml''
     (ConfigMap_Object (demo_ConfigMap_of ''{'')) (ConfigMap_Object (demo_ConfigMap_of ''[]'')) =
   Return ((True, None), ConfigMap_Object (demo_ConfigMap_of ''[]'')) \<and>
   reconcileLimitsConfigMap
     (demo_ConfigMapCollaborators ''{'' ''[]'' :: (nat, nat) ConfigMapCollaborators)
     (NewContext demo_Context (WithValues \<lparr>Enabled = (\<lambda>level. True)\<rparr>)) demo_Limitador 3 =
   Return (Some (Failure ''yaml: cannot unmarshal''), 4) \<and>
   Reconcile
     (demo_reconciler True (Inr ''{}'') None None (empty_Result, None)
        (Some (Failure ''yaml: cannot unmarshal'')) None (empty_Result, None))
     demo_Context (''default'', ''limitador'') 0 =
   ((empty_Result, Some (Failure ''yaml: cannot unmarshal'')), 5)"
  using mutate_desired_parse_error [where Unmarshal = "demo_Unmarshal :: string \<Rightarrow> error + nat list option"
      and desired = "demo_ConfigMap_of ''{''" and k = "''limitador-config.yaml''"
      and err = "Failure ''yaml: cannot unmarshal''" and existing = "demo_ConfigMap_of ''[]''"
      and r = "demo_reconciler True (Inr ''{}'') None None (empty_Result, None)
        (Some (Failure ''yaml: cannot unmarshal'')) None (empty_Result, None)"
      and cm = "demo_ConfigMapCollaborators ''{'' ''[]'' :: (nat, nat) ConfigMapCollaborators"
      and eventCtx = demo_Context and req = "(''default'', ''limitador'')" and w = 0
      and obj = demo_Limitador and ?w0.0 = 0 and jsonData = "''{}''" and ?w1.0 = 1 and ?w2.0 = 2
      and result = empty_Result and ?w3.0 = 3 and limitsConfigMap = "demo_ConfigMap_of ''{''"
      and builtDesired = "demo_ConfigMap_of ''{''" and found = "demo_ConfigMap_of ''[]''"
      and ?w4.0 = 4 and parseErr = "Failure ''yaml: cannot unmarshal''"
      and statusOutcome = "(empty_Result, None)" and ?w5.0 = 5]
    mutate_desired_parse_error [where Unmarshal = "demo_Unmarshal :: string \<Rightarrow> error + nat list option"
      and desired = "demo_ConfigMap_of ''[]''" and k = "''limitador-config.yaml''"
      and desiredLimits = "Some []" and existingErr = "Failure ''yaml: cannot unmarshal''"
      and existing = "demo_ConfigMap_of ''{''"
      and r = "demo_reconciler True (Inr ''{}'') None None (empty_Result, None)
        (Some (Failure ''yaml: cannot unmarshal'')) None (empty_Result, None)"
      and cm = "demo_ConfigMapCollaborators ''{'' ''[]'' :: (nat, nat) ConfigMapCollaborators"
      and eventCtx = demo_Context and req = "(''default'', ''limitador'')" and w = 0
      and obj = demo_Limitador and ?w0.0 = 0 and jsonData = "''{}''" and ?w1.0 = 1 and ?w2.0 = 2
      and result = empty_Result and ?w3.0 = 3 and limitsConfigMap = "demo_ConfigMap_of ''{''"
      and builtDesired = "demo_ConfigMap_of ''{''" and found = "demo_ConfigMap_of ''[]''"
      and ?w4.0 = 4 and parseErr = "Failure ''yaml: cannot unmarshal''"
      and statusOutcome = "(empty_Result, None)" and ?w5.0 = 5]
  by (simp add: demo_Unmarshal_def demo_ConfigMap_of_def demo_ConfigMap_def map_index_def
      demo_reconciler_def demo_ConfigMapCollaborators_def demo_Limitador_def empty_Result_def
      reconcileLimitsConfigMap_def ReconcileConfigMap_def mutateLimitsConfigMap_def
      FromContext_NewContext WithValues_def Let_def DeepEqual_def)

end
